theory Spec2Isabelle
  imports Main
begin

section \<open>Strings\<close>

text \<open>
  A JavaScript string is modelled as a \<^typ>\<open>string\<close>: the list of its code units, taken
  from the ASCII range, so that \<open>length\<close> is the \<open>.length\<close> of the source and the case
  mappings keep the length. The character classes are those of the source's regular
  expressions: \<open>\d\<close>, \<open>\w\<close>, \<open>\s\<close>, \<open>[a-z]\<close>, \<open>[A-Z]\<close>.
\<close>

definition isDigit :: "char \<Rightarrow> bool" where
  "isDigit c = (c \<in> set ''0123456789'')"

definition isLower :: "char \<Rightarrow> bool" where
  "isLower c = (c \<in> set ''abcdefghijklmnopqrstuvwxyz'')"

definition isUpper :: "char \<Rightarrow> bool" where
  "isUpper c = (c \<in> set ''ABCDEFGHIJKLMNOPQRSTUVWXYZ'')"

definition isWordChar :: "char \<Rightarrow> bool" where
  "isWordChar c = (isLower c \<or> isUpper c \<or> isDigit c \<or> c = CHR ''_'')"

definition isSpace :: "char \<Rightarrow> bool" where
  "isSpace c = (c \<in> set [CHR '' '', CHR 0x09, CHR 0x0A, CHR 0x0B, CHR 0x0C, CHR 0x0D])"

definition toLowerChar :: "char \<Rightarrow> char" where
  "toLowerChar c =
     (case map_of (zip ''ABCDEFGHIJKLMNOPQRSTUVWXYZ'' ''abcdefghijklmnopqrstuvwxyz'') c of
        Some l \<Rightarrow> l | None \<Rightarrow> c)"

definition toUpperChar :: "char \<Rightarrow> char" where
  "toUpperChar c =
     (case map_of (zip ''abcdefghijklmnopqrstuvwxyz'' ''ABCDEFGHIJKLMNOPQRSTUVWXYZ'') c of
        Some u \<Rightarrow> u | None \<Rightarrow> c)"

definition toLowerCase :: "string \<Rightarrow> string" where
  "toLowerCase s = map toLowerChar s"

definition startsWith :: "string \<Rightarrow> string \<Rightarrow> bool" where
  "startsWith s p = (take (length p) s = p)"

text \<open>\<open>s.includes(p)\<close>: \<open>p\<close> occurs in \<open>s\<close> at some position.\<close>

fun includesStr :: "string \<Rightarrow> string \<Rightarrow> bool" where
  "includesStr [] p = (p = [])"
| "includesStr (c # cs) p = (startsWith (c # cs) p \<or> includesStr cs p)"

definition trim :: "string \<Rightarrow> string" where
  "trim s = rev (dropWhile isSpace (rev (dropWhile isSpace s)))"

text \<open>\<open>s.replace(/c/g, r)\<close> for a single character \<open>c\<close>.\<close>

definition replaceChar :: "char \<Rightarrow> string \<Rightarrow> string \<Rightarrow> string" where
  "replaceChar c r s = concat (map (\<lambda>x. if x = c then r else [x]) s)"

text \<open>
  \<open>s.replace(/\s+/g, ' ')\<close>: every maximal run of whitespace becomes one space. The flag
  says whether the previous character belonged to a run that was already replaced.
\<close>

primrec collapseFrom :: "bool \<Rightarrow> string \<Rightarrow> string" where
  "collapseFrom inRun [] = []"
| "collapseFrom inRun (c # cs) =
     (if isSpace c then (if inRun then collapseFrom True cs else CHR '' '' # collapseFrom True cs)
      else c # collapseFrom False cs)"

definition collapseWhitespace :: "string \<Rightarrow> string" where
  "collapseWhitespace s = collapseFrom False s"

section \<open>escapeXml\<close>

text \<open>
  The values \<open>escapeXml\<close> is called with: a string, or \<open>null\<close>/\<open>undefined\<close> for a missing
  field. \<open>toString\<close> of \<open>null\<close> or \<open>undefined\<close> raises a TypeError.
\<close>

datatype jsval = JUndefined | JNull | JStr string

datatype error = TypeError | FetchError nat | ParseError

definition falsy :: "jsval \<Rightarrow> bool" where
  "falsy v = (case v of JUndefined \<Rightarrow> True | JNull \<Rightarrow> True | JStr s \<Rightarrow> s = [])"

definition jsToString :: "jsval \<Rightarrow> error + string" where
  "jsToString v = (case v of JUndefined \<Rightarrow> Inl TypeError | JNull \<Rightarrow> Inl TypeError | JStr s \<Rightarrow> Inr s)"

definition escapeChain :: "string \<Rightarrow> string" where
  "escapeChain s =
     replaceChar (CHR 0x27) ''&apos;''
       (replaceChar (CHR 0x22) ''&quot;''
         (replaceChar (CHR ''>'') ''&gt;''
           (replaceChar (CHR ''<'') ''&lt;''
             (replaceChar (CHR ''&'') ''&amp;'' s))))"

definition escapeXml :: "jsval \<Rightarrow> error + string" where
  "escapeXml str =
     (if falsy str then Inr []
      else (case jsToString str of Inl e \<Rightarrow> Inl e | Inr s \<Rightarrow> Inr (escapeChain s)))"

text \<open>
  The five XML special characters and their entities, as the feed renderer's contract
  lists them; \<open>escapeChain\<close> above is the source's sequence of five replacements.
\<close>

definition xmlEntity :: "char \<Rightarrow> string" where
  "xmlEntity c =
     (if c = CHR ''&'' then ''&amp;''
      else if c = CHR ''<'' then ''&lt;''
      else if c = CHR ''>'' then ''&gt;''
      else if c = CHR 0x22 then ''&quot;''
      else if c = CHR 0x27 then ''&apos;''
      else [c])"

section \<open>Metadata inference\<close>

text \<open>
  An image element as the scraper sees it through cheerio: its attributes (\<open>attr\<close> gives
  \<open>undefined\<close>, here \<open>None\<close>, for a missing one) and the text of the nodes its queries
  reach (\<open>.text()\<close> of an empty selection is the empty string):
  \<^item> \<open>siblings_figcaption\<close>: \<open>$(element).siblings('figcaption').text()\<close>
  \<^item> \<open>parent_caption\<close>: \<open>$(element).parent().siblings('.wp-caption-text').text()\<close>
  \<^item> \<open>figure_figcaption\<close>: \<open>$(element).closest('figure').find('figcaption').text()\<close>
  \<^item> \<open>block_figcaption\<close>: \<open>$(element).closest('.wp-block-image').find('figcaption').text()\<close>
  \<^item> \<open>caption_text\<close>: \<open>$(element).closest('.wp-caption').find('.wp-caption-text').text()\<close>
  \<^item> \<open>article_heading\<close>: \<open>$(element).closest('article, .post').find('h1, h2, h3').first().text()\<close>
  \<^item> \<open>article_paragraph\<close>: \<open>$(element).closest('article, .post').find('p').first().text()\<close>
\<close>

record element =
  attr_src :: "string option"
  attr_alt :: "string option"
  attr_title :: "string option"
  siblings_figcaption :: string
  parent_caption :: string
  figure_figcaption :: string
  block_figcaption :: string
  caption_text :: string
  article_heading :: string
  article_paragraph :: string

text \<open>\<open>.filter(Boolean)\<close> on an array of strings and \<open>undefined\<close>: the non-empty strings.\<close>

definition filterBoolean :: "string option list \<Rightarrow> string list" where
  "filterBoolean vs =
     List.map_filter (\<lambda>v. case v of None \<Rightarrow> None | Some s \<Rightarrow> if s = [] then None else Some s) vs"

subsection \<open>cleanTitle\<close>

definition keepBasic :: "string \<Rightarrow> string" where
  "keepBasic s = filter (\<lambda>c. isWordChar c \<or> isSpace c \<or> c \<in> set ''-.,!?'') s"

definition cleanTitle :: "string \<Rightarrow> string" where
  "cleanTitle title = take 80 (trim (keepBasic (collapseWhitespace title)))"

subsection \<open>generateTitleFromUrl\<close>

text \<open>\<open>url.split('/').pop()\<close>: what follows the last slash.\<close>

definition lastSegment :: "string \<Rightarrow> string" where
  "lastSegment s = rev (takeWhile (\<lambda>c. c \<noteq> CHR ''/'') (rev s))"

text \<open>\<open>.split('.')[0]\<close>: what precedes the first dot.\<close>

definition beforeDot :: "string \<Rightarrow> string" where
  "beforeDot s = takeWhile (\<lambda>c. c \<noteq> CHR ''.'') s"

text \<open>
  \<open>.replace(/([a-z])([A-Z])/g, '$1 $2')\<close>: a match consumes both letters, and the scan
  goes on after them.
\<close>

fun spaceCamel :: "string \<Rightarrow> string" where
  "spaceCamel (a # b # cs) =
     (if isLower a \<and> isUpper b then a # CHR '' '' # b # spaceCamel cs
      else a # spaceCamel (b # cs))"
| "spaceCamel cs = cs"

text \<open>
  \<open>.replace(/^./, char => char.toUpperCase())\<close>: the dot matches any character but a line
  terminator.
\<close>

definition capitalizeFirst :: "string \<Rightarrow> string" where
  "capitalizeFirst s =
     (case s of [] \<Rightarrow> []
      | c # cs \<Rightarrow> if c = CHR 0x0A \<or> c = CHR 0x0D then c # cs else toUpperChar c # cs)"

definition generateTitleFromUrl :: "string option \<Rightarrow> string" where
  "generateTitleFromUrl url =
     (case url of None \<Rightarrow> ''Cartoon''
      | Some u \<Rightarrow>
          if u = [] then ''Cartoon''
          else
            (let filename = beforeDot (lastSegment u);
                 t = take 50 (capitalizeFirst (trim (collapseWhitespace (spaceCamel
                       (map (\<lambda>c. if c = CHR ''_'' \<or> c = CHR ''-'' then CHR '' '' else c)
                         (dropWhile isDigit filename))))))
             in if t = [] then ''Educational Cartoon'' else t))"

subsection \<open>extractTitle\<close>

definition titleCandidates :: "element \<Rightarrow> string list" where
  "titleCandidates e =
     filterBoolean
       [attr_alt e,
        attr_title e,
        Some (trim (siblings_figcaption e)),
        Some (trim (parent_caption e)),
        Some (trim (figure_figcaption e)),
        Some (trim (block_figcaption e)),
        Some (trim (caption_text e)),
        Some (trim (article_heading e))]"

text \<open>The test of the loop over the candidates; \<open>/^\d+$/\<close> matches a non-empty run of digits.\<close>

definition titleAccepted :: "string \<Rightarrow> bool" where
  "titleAccepted candidate =
     (length candidate > 3 \<and>
      length candidate < 100 \<and>
      toLowerCase candidate \<noteq> ''cartoon'' \<and>
      \<not> (candidate \<noteq> [] \<and> list_all isDigit candidate) \<and>
      \<not> includesStr candidate ''wp-content'')"

definition extractTitle :: "element \<Rightarrow> string" where
  "extractTitle e =
     (case find titleAccepted (titleCandidates e) of
        Some candidate \<Rightarrow> cleanTitle candidate
      | None \<Rightarrow> generateTitleFromUrl (attr_src e))"

subsection \<open>extractDescription\<close>




text \<open>An image element that carries a \<open>src\<close> attribute and nothing else.\<close>

definition bareImage :: "string \<Rightarrow> element" where
  "bareImage src =
     \<lparr>attr_src = Some src, attr_alt = None, attr_title = None, siblings_figcaption = [],
      parent_caption = [], figure_figcaption = [], block_figcaption = [], caption_text = [],
      article_heading = [], article_paragraph = []\<rparr>"

section \<open>Dates\<close>

text \<open>
  A \<open>Date\<close> object is modelled by its time value, the milliseconds since the epoch, and
  its methods by the day and year arithmetic of the language standard. Local time is
  taken in a zone of constant offset zero (UTC, as on the job's runner), so that the
  local fields are read from the time value itself. The years that occur (four-digit
  tokens, and some months around the current date) are far inside the range of time
  values, so no date here is invalid.
\<close>

type_synonym timevalue = int

definition msPerDay :: int where
  "msPerDay = 86400000"

definition dayOf :: "timevalue \<Rightarrow> int" where
  "dayOf t = t div msPerDay"

definition timeWithinDay :: "timevalue \<Rightarrow> int" where
  "timeWithinDay t = t mod msPerDay"

definition inLeapYear :: "int \<Rightarrow> bool" where
  "inLeapYear y = (y mod 4 = 0 \<and> (y mod 100 \<noteq> 0 \<or> y mod 400 = 0))"

text \<open>The day number of the first day of year \<open>y\<close>.\<close>

definition dayFromYear :: "int \<Rightarrow> int" where
  "dayFromYear y = 365 * (y - 1970) + (y - 1969) div 4 - (y - 1901) div 100 + (y - 1601) div 400"

text \<open>
  The year a day falls in: the largest \<open>y\<close> with \<open>dayFromYear y \<le> d\<close>, found from an
  estimate by the mean length of a year, which is off by one year at most.
\<close>

definition yearFromDay :: "int \<Rightarrow> int" where
  "yearFromDay d =
     (let y0 = 1970 + (d * 400) div 146097
      in if dayFromYear (y0 + 1) \<le> d then y0 + 1
         else if dayFromYear y0 \<le> d then y0
         else y0 - 1)"

text \<open>The number of days of a year that precede its month \<open>m\<close> (0 is January).\<close>

definition daysBefore :: "bool \<Rightarrow> int \<Rightarrow> int" where
  "daysBefore leap m =
     (if m \<le> 0 then 0
      else if m = 1 then 31
      else (if leap then 1 else 0) +
        (if m = 2 then 59 else if m = 3 then 90 else if m = 4 then 120
         else if m = 5 then 151 else if m = 6 then 181 else if m = 7 then 212
         else if m = 8 then 243 else if m = 9 then 273 else if m = 10 then 304
         else if m = 11 then 334 else 365))"

definition monthFromDayInYear :: "bool \<Rightarrow> int \<Rightarrow> int" where
  "monthFromDayInYear leap n =
     (if n < daysBefore leap 1 then 0 else if n < daysBefore leap 2 then 1
      else if n < daysBefore leap 3 then 2 else if n < daysBefore leap 4 then 3
      else if n < daysBefore leap 5 then 4 else if n < daysBefore leap 6 then 5
      else if n < daysBefore leap 7 then 6 else if n < daysBefore leap 8 then 7
      else if n < daysBefore leap 9 then 8 else if n < daysBefore leap 10 then 9
      else if n < daysBefore leap 11 then 10 else 11)"

definition getFullYear :: "timevalue \<Rightarrow> int" where
  "getFullYear t = yearFromDay (dayOf t)"

definition dayWithinYear :: "timevalue \<Rightarrow> int" where
  "dayWithinYear t = dayOf t - dayFromYear (getFullYear t)"

definition getMonth :: "timevalue \<Rightarrow> int" where
  "getMonth t = monthFromDayInYear (inLeapYear (getFullYear t)) (dayWithinYear t)"

definition getDate :: "timevalue \<Rightarrow> int" where
  "getDate t = dayWithinYear t - daysBefore (inLeapYear (getFullYear t)) (getMonth t) + 1"

text \<open>
  \<open>MakeDay\<close>: the month may lie outside 0..11 and the day outside the month; both carry
  over into the neighbouring months and years.
\<close>

definition makeDay :: "int \<Rightarrow> int \<Rightarrow> int \<Rightarrow> int" where
  "makeDay year month dt =
     (let ym = year + month div 12; mn = month mod 12
      in dayFromYear ym + daysBefore (inLeapYear ym) mn + dt - 1)"

definition makeDate :: "int \<Rightarrow> int \<Rightarrow> timevalue" where
  "makeDate day time = day * msPerDay + time"

text \<open>\<open>new Date(year, month, day)\<close>: a year from 0 to 99 stands for 1900 + year.\<close>

definition newDate :: "int \<Rightarrow> int \<Rightarrow> int \<Rightarrow> timevalue" where
  "newDate year month day =
     makeDate (makeDay (if 0 \<le> year \<and> year \<le> 99 then 1900 + year else year) month day) 0"

definition setMonth :: "timevalue \<Rightarrow> int \<Rightarrow> timevalue" where
  "setMonth t month = makeDate (makeDay (getFullYear t) month (getDate t)) (timeWithinDay t)"

definition setDate :: "timevalue \<Rightarrow> int \<Rightarrow> timevalue" where
  "setDate t dt = makeDate (makeDay (getFullYear t) (getMonth t) dt) (timeWithinDay t)"

section \<open>Sorting\<close>

text \<open>
  \<open>Array.prototype.sort\<close> with a comparator: the sort is stable, so for a consistent
  comparator its result is the one of a stable insertion sort. An element goes before
  those to its right in the array that do not compare smaller than it.
\<close>

fun insertSorted :: "('a \<Rightarrow> 'a \<Rightarrow> int) \<Rightarrow> 'a \<Rightarrow> 'a list \<Rightarrow> 'a list" where
  "insertSorted cmp x [] = [x]"
| "insertSorted cmp x (y # ys) =
     (if cmp x y \<le> 0 then x # y # ys else y # insertSorted cmp x ys)"

fun jsSort :: "('a \<Rightarrow> 'a \<Rightarrow> int) \<Rightarrow> 'a list \<Rightarrow> 'a list" where
  "jsSort cmp [] = []"
| "jsSort cmp (x # xs) = insertSorted cmp x (jsSort cmp xs)"

section \<open>extractDateFromUrl\<close>

text \<open>
  The regular expressions of the date patterns are sequences of four kinds of token: a
  literal character, a captured group \<open>(\d{n})\<close>, the optional separator \<open>(?:_|\-|\.)?\<close>
  and the lookahead \<open>(?![\d])\<close>. \<open>matchHere\<close> matches a sequence at the start of a string
  and returns the captured groups; \<open>regexMatch\<close> is \<open>url.match(regex)\<close>, the match at the
  leftmost position that has one.
\<close>

datatype tok = Lit char | Digits nat | OptSep | NotDigit

fun matchHere :: "tok list \<Rightarrow> string \<Rightarrow> string list option" where
  "matchHere [] s = Some []"
| "matchHere (Lit c # ts) s =
     (case s of [] \<Rightarrow> None | x # xs \<Rightarrow> if x = c then matchHere ts xs else None)"
| "matchHere (Digits n # ts) s =
     (if n \<le> length s \<and> list_all isDigit (take n s)
      then map_option (\<lambda>groups. take n s # groups) (matchHere ts (drop n s))
      else None)"
| "matchHere (OptSep # ts) s =
     (case s of [] \<Rightarrow> matchHere ts s
      | x # xs \<Rightarrow>
          if x \<in> set ''_-.''
          then (case matchHere ts xs of Some groups \<Rightarrow> Some groups | None \<Rightarrow> matchHere ts s)
          else matchHere ts s)"
| "matchHere (NotDigit # ts) s =
     (case s of [] \<Rightarrow> matchHere ts s | x # xs \<Rightarrow> if isDigit x then None else matchHere ts s)"

fun regexMatch :: "tok list \<Rightarrow> string \<Rightarrow> string list option" where
  "regexMatch r [] = matchHere r []"
| "regexMatch r (c # cs) =
     (case matchHere r (c # cs) of Some groups \<Rightarrow> Some groups | None \<Rightarrow> regexMatch r cs)"

datatype format = YMD | YM | Y | YYYYMMDD

record pattern =
  regex :: "tok list"
  format :: format
  specificity :: int

definition patterns :: "pattern list" where
  "patterns =
     [\<lparr>regex = [Lit (CHR ''/''), Digits 4, Lit (CHR ''/''), Digits 2, Lit (CHR ''/''), Digits 2, Lit (CHR ''/'')],
       format = YMD, specificity = 3\<rparr>,
      \<lparr>regex = [Lit (CHR ''/''), Digits 4, Lit (CHR ''/''), Digits 2, Lit (CHR ''/'')],
       format = YM, specificity = 2\<rparr>,
      \<lparr>regex = [Lit (CHR ''/''), Digits 4, Digits 2, Digits 2, OptSep],
       format = YMD, specificity = 3\<rparr>,
      \<lparr>regex = [Digits 4, Lit (CHR ''-''), Digits 2, Lit (CHR ''-''), Digits 2],
       format = YMD, specificity = 3\<rparr>,
      \<lparr>regex = [Digits 4, Lit (CHR ''_''), Digits 2, Lit (CHR ''_''), Digits 2],
       format = YMD, specificity = 3\<rparr>,
      \<lparr>regex = [Digits 8, NotDigit],
       format = YYYYMMDD, specificity = 3\<rparr>,
      \<lparr>regex = [Lit (CHR ''/''), Digits 4, Lit (CHR ''/'')],
       format = Y, specificity = 1\<rparr>]"

text \<open>\<open>patterns.sort((a, b) => b.specificity - a.specificity)\<close>\<close>

definition sortedPatterns :: "pattern list" where
  "sortedPatterns = jsSort (\<lambda>a b. specificity b - specificity a) patterns"

text \<open>
  \<open>parseInt\<close> reads the decimal digits a string starts with; without any the result is
  \<open>NaN\<close>, here \<open>None\<close>. (The captured groups consist of digits.)
\<close>

definition digitValue :: "char \<Rightarrow> int" where
  "digitValue c = int (of_char c) - 48"

definition parseInt :: "string \<Rightarrow> int option" where
  "parseInt s =
     (let ds = takeWhile isDigit s
      in if ds = [] then None else Some (foldl (\<lambda>n c. 10 * n + digitValue c) 0 ds))"

text \<open>\<open>parseInt(match[i])\<close>; a group that the match does not have is \<open>undefined\<close>.\<close>

definition parseGroup :: "string list \<Rightarrow> nat \<Rightarrow> int option" where
  "parseGroup groups i = (if 1 \<le> i \<and> i \<le> length groups then parseInt (groups ! (i - 1)) else None)"

definition substring :: "string \<Rightarrow> nat \<Rightarrow> nat \<Rightarrow> string" where
  "substring s a b = take (b - a) (drop a s)"

text \<open>
  The \<open>switch\<close> on the format: the year, the month index (from 0) and the day that are
  handed to the \<open>Date\<close> constructor. With a \<open>NaN\<close> among them the date is invalid and fails
  the validation.
\<close>

definition dateFields :: "format \<Rightarrow> string list \<Rightarrow> (int \<times> int \<times> int) option" where
  "dateFields fmt groups =
     (case fmt of
        YMD \<Rightarrow>
          (case (parseGroup groups 1, parseGroup groups 2, parseGroup groups 3) of
             (Some year, Some month, Some day) \<Rightarrow> Some (year, month - 1, day)
           | _ \<Rightarrow> None)
      | YM \<Rightarrow>
          (case (parseGroup groups 1, parseGroup groups 2) of
             (Some year, Some month) \<Rightarrow> Some (year, month - 1, 1)
           | _ \<Rightarrow> None)
      | Y \<Rightarrow>
          (case parseGroup groups 1 of
             Some year \<Rightarrow> Some (year, 0, 1)
           | None \<Rightarrow> None)
      | YYYYMMDD \<Rightarrow>
          (case groups of
             [] \<Rightarrow> None
           | dateStr # _ \<Rightarrow>
               (case (parseInt (substring dateStr 0 4), parseInt (substring dateStr 4 6),
                      parseInt (substring dateStr 6 8)) of
                  (Some year, Some month, Some day) \<Rightarrow> Some (year, month - 1, day)
                | _ \<Rightarrow> None)))"

text \<open>
  The body of the loop for one pattern: the date it returns, or \<open>None\<close> when the loop
  goes on to the next pattern. \<open>now\<close> is \<open>new Date()\<close>.
\<close>

definition candidateDate :: "timevalue \<Rightarrow> pattern \<Rightarrow> string \<Rightarrow> timevalue option" where
  "candidateDate now p url =
     (case regexMatch (regex p) url of
        None \<Rightarrow> None
      | Some groups \<Rightarrow>
          (case dateFields (format p) groups of
             None \<Rightarrow> None
           | Some (year, month, day) \<Rightarrow>
               (let d = newDate year month day
                in if getFullYear d = year \<and> getMonth d = month \<and>
                      getFullYear d \<ge> 2000 \<and> getFullYear d \<le> getFullYear now + 1
                   then Some d else None)))"

fun tryPatterns :: "timevalue \<Rightarrow> string \<Rightarrow> pattern list \<Rightarrow> timevalue option" where
  "tryPatterns now url [] = None"
| "tryPatterns now url (p # ps) =
     (case candidateDate now p url of Some d \<Rightarrow> Some d | None \<Rightarrow> tryPatterns now url ps)"

definition extractDateFromUrl :: "timevalue \<Rightarrow> string \<Rightarrow> timevalue" where
  "extractDateFromUrl now url =
     (case tryPatterns now url sortedPatterns of Some d \<Rightarrow> d | None \<Rightarrow> now)"

section \<open>Properties\<close>

subsection \<open>escapeXml\<close>

lemma replaceChar_Nil: "replaceChar c r [] = []"
  by (simp add: replaceChar_def)

lemma replaceChar_append: "replaceChar c r (xs @ ys) = replaceChar c r xs @ replaceChar c r ys"
  by (simp add: replaceChar_def)

lemma replaceChar_Cons: "replaceChar c r (x # xs) = (if x = c then r else [x]) @ replaceChar c r xs"
  by (simp add: replaceChar_def)

lemma escapeChain_Nil: "escapeChain [] = []"
  by (simp add: escapeChain_def replaceChar_Nil)

lemma escapeChain_Cons: "escapeChain (x # xs) = xmlEntity x @ escapeChain xs"
  by (simp add: escapeChain_def xmlEntity_def replaceChar_Cons replaceChar_append replaceChar_Nil)

lemma escapeChain_entities: "escapeChain s = concat (map xmlEntity s)"
  by (induction s) (simp_all add: escapeChain_Nil escapeChain_Cons)

lemma length_xmlEntity: "1 \<le> length (xmlEntity c)"
  by (simp add: xmlEntity_def)

lemma length_escapeChain_ge: "length s \<le> length (escapeChain s)"
proof (induction s)
  case Nil
  show ?case by (simp add: escapeChain_Nil)
next
  case (Cons x xs)
  have "1 \<le> length (xmlEntity x)" by (rule length_xmlEntity)
  with Cons show ?case by (simp add: escapeChain_Cons)
qed

lemma length_escapeChain_amp: "CHR ''&'' \<in> set s \<Longrightarrow> length s < length (escapeChain s)"
proof (induction s)
  case Nil
  then show ?case by simp
next
  case (Cons x xs)
  show ?case
  proof (cases "x = CHR ''&''")
    case True
    have "length xs \<le> length (escapeChain xs)" by (rule length_escapeChain_ge)
    with True show ?thesis by (simp add: escapeChain_Cons xmlEntity_def)
  next
    case False
    with Cons.prems have "CHR ''&'' \<in> set xs" by simp
    then have "length xs < length (escapeChain xs)" by (rule Cons.IH)
    moreover have "1 \<le> length (xmlEntity x)" by (rule length_xmlEntity)
    ultimately show ?thesis by (simp add: escapeChain_Cons)
  qed
qed

lemma amp_in_escapeChain: "CHR ''&'' \<in> set s \<Longrightarrow> CHR ''&'' \<in> set (escapeChain s)"
  by (induction s) (auto simp: escapeChain_Cons xmlEntity_def)

lemma escapeXml_JStr: "escapeXml (JStr s) = Inr (escapeChain s)"
  by (cases s) (simp_all add: escapeXml_def falsy_def jsToString_def escapeChain_Nil)

text \<open>
  Claim C9. One application of \<open>escapeXml\<close> replaces each of the five XML special
  characters by its entity and leaves every other character alone. The function is not
  idempotent: on every string that contains \<open>&\<close> a second application changes the
  result again; \<open>&\<close> becomes \<open>&amp;\<close> and then \<open>&amp;amp;\<close>.
\<close>

theorem escapeXml_not_idempotent:
  "escapeXml (JStr s) = Inr (concat (map xmlEntity s)) \<and>
   (CHR ''&'' \<in> set s \<longrightarrow>
      (\<exists>once twice. escapeXml (JStr s) = Inr once \<and> escapeXml (JStr once) = Inr twice \<and>
         twice \<noteq> once)) \<and>
   escapeXml (JStr ''&'') = Inr ''&amp;'' \<and>
   escapeXml (JStr ''&amp;'') = Inr ''&amp;amp;''"
proof -
  have one: "escapeXml (JStr s) = Inr (concat (map xmlEntity s))"
    by (simp add: escapeXml_JStr escapeChain_entities)
  have two: "\<exists>once twice. escapeXml (JStr s) = Inr once \<and> escapeXml (JStr once) = Inr twice \<and>
         twice \<noteq> once" if amp: "CHR ''&'' \<in> set s"
  proof -
    from amp have "CHR ''&'' \<in> set (escapeChain s)" by (rule amp_in_escapeChain)
    then have "length (escapeChain s) < length (escapeChain (escapeChain s))"
      by (rule length_escapeChain_amp)
    then have "escapeChain (escapeChain s) \<noteq> escapeChain s" by auto
    then show ?thesis by (simp add: escapeXml_JStr)
  qed
  have three: "escapeXml (JStr ''&'') = Inr ''&amp;''"
    by (simp add: escapeXml_JStr escapeChain_entities xmlEntity_def)
  have four: "escapeXml (JStr ''&amp;'') = Inr ''&amp;amp;''"
    by (simp add: escapeXml_JStr escapeChain_entities xmlEntity_def)
  from one two three four show ?thesis by blast
qed

theorem escapeXml_not_idempotent_witness:
  "CHR ''&'' \<in> set ''a&b'' \<and>
   escapeXml (JStr ''a&b'') = Inr ''a&amp;b'' \<and>
   escapeXml (JStr ''a&amp;b'') = Inr ''a&amp;amp;b'' \<and>
   (\<exists>once twice. escapeXml (JStr ''a&b'') = Inr once \<and> escapeXml (JStr once) = Inr twice \<and>
      twice \<noteq> once)"
proof -
  have amp: "CHR ''&'' \<in> set ''a&b''" by simp
  have e: "escapeXml (JStr ''a&b'') = Inr ''a&amp;b''"
    using escapeXml_not_idempotent [of "''a&b''"] by (simp add: xmlEntity_def)
  have e2: "escapeXml (JStr ''a&amp;b'') = Inr ''a&amp;amp;b''"
    using escapeXml_not_idempotent [of "''a&amp;b''"] by (simp add: xmlEntity_def)
  from amp e e2 escapeXml_not_idempotent [of "''a&b''"] show ?thesis by blast
qed

text \<open>
  Claim C10. \<open>escapeXml\<close> never fails: for every argument it returns a string, and for
  \<open>null\<close>, \<open>undefined\<close> and the empty string it returns the empty string, the guard coming
  before the \<open>toString\<close> that would raise.
\<close>

theorem escapeXml_total_on_missing:
  "(\<exists>out. escapeXml v = Inr out) \<and>
   escapeXml JNull = Inr [] \<and> escapeXml JUndefined = Inr [] \<and> escapeXml (JStr []) = Inr []"
  by (cases v) (simp_all add: escapeXml_def falsy_def jsToString_def)

subsection \<open>Titles and descriptions\<close>

lemma length_collapseFrom: "length (collapseFrom b s) \<le> length s"
  by (induction s arbitrary: b) (auto simp: le_SucI)

lemma length_trim: "length (trim s) \<le> length s"
proof -
  have "length (dropWhile isSpace (rev (dropWhile isSpace s))) \<le> length (rev (dropWhile isSpace s))"
    by (rule length_dropWhile_le)
  also have "\<dots> \<le> length s"
    by (simp add: length_dropWhile_le)
  finally show ?thesis by (simp add: trim_def)
qed

lemma length_cleanTitle: "length (cleanTitle c) \<le> 80 \<and> length (cleanTitle c) \<le> length c"
proof -
  have "length (trim (keepBasic (collapseWhitespace c))) \<le> length (keepBasic (collapseWhitespace c))"
    by (rule length_trim)
  also have "\<dots> \<le> length (collapseWhitespace c)"
    by (simp add: keepBasic_def)
  also have "\<dots> \<le> length c"
    by (simp add: collapseWhitespace_def length_collapseFrom)
  finally show ?thesis by (simp add: cleanTitle_def)
qed

lemma length_generateTitleFromUrl:
  "1 \<le> length (generateTitleFromUrl u) \<and> length (generateTitleFromUrl u) \<le> 50"
  by (cases u) (auto simp: generateTitleFromUrl_def Let_def Suc_le_eq)

lemma length_extractTitle: "length (extractTitle e) \<le> 80"
proof (cases "find titleAccepted (titleCandidates e)")
  case None
  have "length (generateTitleFromUrl (attr_src e)) \<le> 50"
    using length_generateTitleFromUrl by blast
  with None show ?thesis by (simp add: extractTitle_def)
next
  case (Some c)
  have "length (cleanTitle c) \<le> 80"
    using length_cleanTitle by blast
  with Some show ?thesis by (simp add: extractTitle_def)
qed

lemma find_accepted: "find P xs = Some x \<Longrightarrow> P x"
  by (induction xs) (auto split: if_splits)

lemma titleCandidates_bareImage: "titleCandidates (bareImage u) = []"
  by (simp add: titleCandidates_def bareImage_def filterBoolean_def List.map_filter_def trim_def)

text \<open>
  Claim C6, the counterexample: an \<open>alt\<close> text of four characters that the cleaning
  removes is accepted, four characters long as it is, and cleaned to the empty title.
\<close>

theorem title_length_counterexample:
  "\<not> (4 \<le> length (extractTitle ((bareImage ''/wp-content/uploads/2024/05/a.jpg'')\<lparr>attr_alt := Some ''@@@@''\<rparr>)) \<and>
      length (extractTitle ((bareImage ''/wp-content/uploads/2024/05/a.jpg'')\<lparr>attr_alt := Some ''@@@@''\<rparr>)) \<le> 80)"
  by code_simp

text \<open>
  Claim C6, as amended. A title is at most 80 characters long. The lower bound is tested
  on the candidate before the cleaning: an accepted candidate has between 4 and 99
  characters, and the title is its cleaned form, which is never longer than the
  candidate. A title generated from the URL has between 1 and 50 characters.
\<close>

theorem title_length:
  "length (extractTitle e) \<le> 80 \<and>
   (\<forall>c. find titleAccepted (titleCandidates e) = Some c \<longrightarrow>
      4 \<le> length c \<and> length c < 100 \<and> extractTitle e = cleanTitle c \<and>
      length (extractTitle e) \<le> length c) \<and>
   (find titleAccepted (titleCandidates e) = None \<longrightarrow>
      1 \<le> length (extractTitle e) \<and> length (extractTitle e) \<le> 50)"
proof (intro conjI allI impI)
  show "length (extractTitle e) \<le> 80" by (rule length_extractTitle)
next
  fix c assume c: "find titleAccepted (titleCandidates e) = Some c"
  then have acc: "titleAccepted c" by (rule find_accepted)
  from acc show "4 \<le> length c" by (simp add: titleAccepted_def)
  from acc show "length c < 100" by (simp add: titleAccepted_def)
  from c show eq: "extractTitle e = cleanTitle c" by (simp add: extractTitle_def)
  have "length (cleanTitle c) \<le> length c" using length_cleanTitle by blast
  with eq show "length (extractTitle e) \<le> length c" by simp
next
  assume n: "find titleAccepted (titleCandidates e) = None"
  then have eq: "extractTitle e = generateTitleFromUrl (attr_src e)"
    by (simp add: extractTitle_def)
  from eq show "1 \<le> length (extractTitle e)" using length_generateTitleFromUrl by simp
  from eq show "length (extractTitle e) \<le> 50" using length_generateTitleFromUrl by simp
qed

theorem title_length_witness:
  "find titleAccepted (titleCandidates ((bareImage ''/wp-content/uploads/2024/05/a.jpg'')\<lparr>attr_alt := Some ''A nice (one)''\<rparr>))
     = Some ''A nice (one)'' \<and>
   extractTitle ((bareImage ''/wp-content/uploads/2024/05/a.jpg'')\<lparr>attr_alt := Some ''A nice (one)''\<rparr>) = ''A nice one'' \<and>
   length (extractTitle ((bareImage ''/wp-content/uploads/2024/05/a.jpg'')\<lparr>attr_alt := Some ''A nice (one)''\<rparr>))
     \<le> length ''A nice (one)'' \<and>
   find titleAccepted (titleCandidates (bareImage ''/wp-content/uploads/2024/05/a.jpg'')) = None \<and>
   1 \<le> length (extractTitle (bareImage ''/wp-content/uploads/2024/05/a.jpg''))"
proof -
  let ?e = "(bareImage ''/wp-content/uploads/2024/05/a.jpg'')\<lparr>attr_alt := Some ''A nice (one)''\<rparr>"
  have f: "find titleAccepted (titleCandidates ?e) = Some ''A nice (one)''" by code_simp
  have t: "extractTitle ?e = ''A nice one''" by code_simp
  have n: "find titleAccepted (titleCandidates (bareImage ''/wp-content/uploads/2024/05/a.jpg'')) = None"
    by (simp add: titleCandidates_bareImage)
  from f t n title_length [of ?e] title_length [of "bareImage ''/wp-content/uploads/2024/05/a.jpg''"]
  show ?thesis by blast
qed

text \<open>
  Claim C7, the counterexample: only the first letter of the generated title is made
  upper case, so the file name \<open>quantum-mechanics.jpg\<close> does not give \<open>Quantum Mechanics\<close>.
\<close>

theorem title_from_filename_counterexample:
  "extractTitle (bareImage ''https://www.evertkwok.nl/wp-content/uploads/2024/05/quantum-mechanics.jpg'')
     \<noteq> ''Quantum Mechanics''"
  by code_simp

text \<open>
  Claim C7, as amended. When no candidate text is accepted (as for an image with no
  \<open>alt\<close>, no \<open>title\<close>, no caption and no article heading), the title is generated from the
  file name of the \<open>src\<close> URL: leading digits dropped, underscores and hyphens turned into
  spaces, a space put between a lower-case and an upper-case letter, whitespace collapsed
  and trimmed, the first letter alone made upper case, cut to 50 characters. The file name
  \<open>quantum-mechanics.jpg\<close> gives \<open>Quantum mechanics\<close>.
\<close>

theorem title_from_filename:
  "(find titleAccepted (titleCandidates e) = None \<longrightarrow>
      extractTitle e = generateTitleFromUrl (attr_src e)) \<and>
   extractTitle (bareImage u) = generateTitleFromUrl (Some u) \<and>
   generateTitleFromUrl (Some ''https://www.evertkwok.nl/wp-content/uploads/2024/05/quantum-mechanics.jpg'')
     = ''Quantum mechanics'' \<and>
   generateTitleFromUrl (Some ''https://www.evertkwok.nl/wp-content/uploads/2024/05/538piethagorasTheorem_proof.jpg'')
     = ''Piethagoras Theorem proof''"
proof (intro conjI impI)
  assume "find titleAccepted (titleCandidates e) = None"
  then show "extractTitle e = generateTitleFromUrl (attr_src e)"
    by (simp add: extractTitle_def)
next
  show "extractTitle (bareImage u) = generateTitleFromUrl (Some u)"
    by (simp add: extractTitle_def titleCandidates_bareImage) (simp add: bareImage_def)
next
  show "generateTitleFromUrl (Some ''https://www.evertkwok.nl/wp-content/uploads/2024/05/quantum-mechanics.jpg'')
     = ''Quantum mechanics''"
    by code_simp
next
  show "generateTitleFromUrl (Some ''https://www.evertkwok.nl/wp-content/uploads/2024/05/538piethagorasTheorem_proof.jpg'')
     = ''Piethagoras Theorem proof''"
    by code_simp
qed

theorem title_from_filename_witness:
  "find titleAccepted (titleCandidates ((bareImage ''/wp-content/uploads/2024/05/quantum-mechanics.jpg'')\<lparr>attr_alt := Some ''123''\<rparr>)) = None \<and>
   extractTitle ((bareImage ''/wp-content/uploads/2024/05/quantum-mechanics.jpg'')\<lparr>attr_alt := Some ''123''\<rparr>)
     = ''Quantum mechanics''"
proof -
  let ?e = "(bareImage ''/wp-content/uploads/2024/05/quantum-mechanics.jpg'')\<lparr>attr_alt := Some ''123''\<rparr>"
  have n: "find titleAccepted (titleCandidates ?e) = None" by code_simp
  have g: "generateTitleFromUrl (attr_src ?e) = ''Quantum mechanics''" by code_simp
  from n g title_from_filename [of ?e] show ?thesis by simp
qed





end
